theory Spec2Isabelle
  imports Complex_Main
begin

section \<open>Numbers and failures\<close>

text \<open>
  The risk engine is Python over NumPy and pandas. Finite floating-point values are
  idealised as reals (no rounding, no overflow, no signed zero). What IEEE arithmetic adds
  to the reals is kept: a NumPy scalar is a finite value, an infinity or NaN, and NumPy
  division by zero yields an infinity or NaN instead of raising. Plain Python floats raise
  \<open>ZeroDivisionError\<close> instead.
\<close>

datatype error = ValueError | ZeroDivisionError | IndexError

datatype npfloat = Fin real | PInf | NInf | NaN

text \<open>Python: \<open>a / b\<close> on two floats.\<close>

definition py_div :: "real \<Rightarrow> real \<Rightarrow> error + real" where
  "py_div a b = (if b = 0 then Inl ZeroDivisionError else Inr (a / b))"

section \<open>Risk-adjusted position sizing\<close>

text \<open>
  \<open>adjust_position_size(base_size, metrics)\<close> of the dynamic risk management guide. The
  function reads three module-level settings, \<open>target_vol\<close>, \<open>max_drawdown\<close> and
  \<open>min_confidence\<close>, which are taken here as a record of parameters. The three factors are
  the local variables of the source, computed in the source's order.
\<close>

record RiskMetrics =
  var :: real
  es :: real
  volatility :: real
  drawdown :: real
  sharpe_ratio :: real
  model_confidence :: real

record sizing_settings =
  target_vol :: real
  max_drawdown :: real
  min_confidence :: real

definition vol_factor :: "sizing_settings \<Rightarrow> RiskMetrics \<Rightarrow> error + real" where
  "vol_factor g metrics =
     (case py_div (target_vol g) (volatility metrics) of
        Inl e \<Rightarrow> Inl e
      | Inr q \<Rightarrow> Inr (min 1 q))"

definition dd_factor :: "sizing_settings \<Rightarrow> RiskMetrics \<Rightarrow> error + real" where
  "dd_factor g metrics =
     (case py_div (drawdown metrics) (max_drawdown g) of
        Inl e \<Rightarrow> Inl e
      | Inr q \<Rightarrow> Inr (1 - q))"

definition conf_factor :: "sizing_settings \<Rightarrow> RiskMetrics \<Rightarrow> error + real" where
  "conf_factor g metrics =
     (case py_div (model_confidence metrics - min_confidence g) (1 - min_confidence g) of
        Inl e \<Rightarrow> Inl e
      | Inr q \<Rightarrow> Inr (max 0 q))"

definition adjust_position_size :: "sizing_settings \<Rightarrow> real \<Rightarrow> RiskMetrics \<Rightarrow> error + real" where
  "adjust_position_size g base_size metrics =
     (case vol_factor g metrics of
        Inl e \<Rightarrow> Inl e
      | Inr v \<Rightarrow>
          (case dd_factor g metrics of
             Inl e \<Rightarrow> Inl e
           | Inr d \<Rightarrow>
               (case conf_factor g metrics of
                  Inl e \<Rightarrow> Inl e
                | Inr c \<Rightarrow> Inr (base_size * v * d * c))))"

section \<open>NumPy scalars\<close>

fun np_neg :: "npfloat \<Rightarrow> npfloat" where
  "np_neg (Fin a) = Fin (- a)"
| "np_neg PInf = NInf"
| "np_neg NInf = PInf"
| "np_neg NaN = NaN"

fun np_abs :: "npfloat \<Rightarrow> npfloat" where
  "np_abs (Fin a) = Fin \<bar>a\<bar>"
| "np_abs PInf = PInf"
| "np_abs NInf = PInf"
| "np_abs NaN = NaN"

fun np_sign :: "npfloat \<Rightarrow> npfloat" where
  "np_sign (Fin a) = Fin (sgn a)"
| "np_sign PInf = Fin 1"
| "np_sign NInf = Fin (- 1)"
| "np_sign NaN = NaN"

text \<open>Comparisons: every comparison with NaN is false.\<close>

fun np_less :: "npfloat \<Rightarrow> npfloat \<Rightarrow> bool" where
  "np_less (Fin a) (Fin b) = (a < b)"
| "np_less (Fin a) PInf = True"
| "np_less (Fin a) NInf = False"
| "np_less NInf (Fin b) = True"
| "np_less NInf PInf = True"
| "np_less NInf NInf = False"
| "np_less PInf y = False"
| "np_less NaN y = False"
| "np_less x NaN = False"

fun np_le :: "npfloat \<Rightarrow> npfloat \<Rightarrow> bool" where
  "np_le (Fin a) (Fin b) = (a \<le> b)"
| "np_le (Fin a) PInf = True"
| "np_le (Fin a) NInf = False"
| "np_le NInf (Fin b) = True"
| "np_le NInf PInf = True"
| "np_le NInf NInf = True"
| "np_le PInf PInf = True"
| "np_le PInf (Fin b) = False"
| "np_le PInf NInf = False"
| "np_le NaN y = False"
| "np_le x NaN = False"

fun np_add :: "npfloat \<Rightarrow> npfloat \<Rightarrow> npfloat" where
  "np_add (Fin a) (Fin b) = Fin (a + b)"
| "np_add (Fin a) PInf = PInf"
| "np_add (Fin a) NInf = NInf"
| "np_add PInf (Fin b) = PInf"
| "np_add NInf (Fin b) = NInf"
| "np_add PInf PInf = PInf"
| "np_add NInf NInf = NInf"
| "np_add PInf NInf = NaN"
| "np_add NInf PInf = NaN"
| "np_add NaN y = NaN"
| "np_add x NaN = NaN"

definition np_sub :: "npfloat \<Rightarrow> npfloat \<Rightarrow> npfloat" where
  "np_sub x y = np_add x (np_neg y)"

text \<open>An infinity times a finite value: the sign decides, and zero gives NaN.\<close>

definition inf_times :: "bool \<Rightarrow> real \<Rightarrow> npfloat" where
  "inf_times positive b =
     (if b = 0 then NaN else if (0 < b) = positive then PInf else NInf)"

fun np_mul :: "npfloat \<Rightarrow> npfloat \<Rightarrow> npfloat" where
  "np_mul (Fin a) (Fin b) = Fin (a * b)"
| "np_mul (Fin a) PInf = inf_times True a"
| "np_mul (Fin a) NInf = inf_times False a"
| "np_mul PInf (Fin b) = inf_times True b"
| "np_mul NInf (Fin b) = inf_times False b"
| "np_mul PInf PInf = PInf"
| "np_mul NInf NInf = PInf"
| "np_mul PInf NInf = NInf"
| "np_mul NInf PInf = NInf"
| "np_mul NaN y = NaN"
| "np_mul x NaN = NaN"

text \<open>
  Division: a finite non-zero value over zero is an infinity of its sign, zero over zero
  and infinity over infinity are NaN, a finite value over an infinity is zero.
\<close>

fun np_div :: "npfloat \<Rightarrow> npfloat \<Rightarrow> npfloat" where
  "np_div (Fin a) (Fin b) =
     (if b = 0 then (if a = 0 then NaN else if 0 < a then PInf else NInf) else Fin (a / b))"
| "np_div (Fin a) PInf = Fin 0"
| "np_div (Fin a) NInf = Fin 0"
| "np_div PInf (Fin b) = (if b < 0 then NInf else PInf)"
| "np_div NInf (Fin b) = (if b < 0 then PInf else NInf)"
| "np_div PInf PInf = NaN"
| "np_div PInf NInf = NaN"
| "np_div NInf PInf = NaN"
| "np_div NInf NInf = NaN"
| "np_div NaN y = NaN"
| "np_div x NaN = NaN"

text \<open>
  \<open>np.minimum\<close> propagates NaN. Python's builtin \<open>min(a, b)\<close> returns \<open>b\<close> only when
  \<open>b < a\<close>, so a NaN first argument is returned as it is.
\<close>

definition np_minimum :: "npfloat \<Rightarrow> npfloat \<Rightarrow> npfloat" where
  "np_minimum x y =
     (if x = NaN \<or> y = NaN then NaN else if np_le x y then x else y)"

definition py_min :: "npfloat \<Rightarrow> npfloat \<Rightarrow> npfloat" where
  "py_min a b = (if np_less b a then b else a)"

section \<open>NumPy and pandas reductions\<close>

text \<open>
  \<open>np.mean\<close> adds the elements and divides by their number, so the mean of an empty
  array is 0/0, NaN. \<open>np.std\<close> is the population deviation (\<open>ddof = 0\<close>), NaN on an empty
  array.
\<close>

definition np_mean :: "real list \<Rightarrow> npfloat" where
  "np_mean xs = np_div (Fin (sum_list xs)) (Fin (real (length xs)))"

definition np_std :: "real list \<Rightarrow> npfloat" where
  "np_std xs =
     (if xs = [] then NaN
      else let mu = sum_list xs / real (length xs)
           in Fin (sqrt (sum_list (map (\<lambda>x. (x - mu)\<^sup>2) xs) / real (length xs))))"

text \<open>The same reductions over an array that may hold non-finite values.\<close>

definition np_mean_f :: "npfloat list \<Rightarrow> npfloat" where
  "np_mean_f xs = np_div (foldl np_add (Fin 0) xs) (Fin (real (length xs)))"

fun np_min_f :: "npfloat list \<Rightarrow> error + npfloat" where
  "np_min_f [] = Inl ValueError"
| "np_min_f (x # xs) = Inr (foldl np_minimum x xs)"

text \<open>
  pandas skips NaN in its reductions and returns NaN when nothing is left; its \<open>std\<close> is
  the sample deviation (\<open>ddof = 1\<close>), NaN for fewer than two values.
\<close>

definition pd_mean :: "real list \<Rightarrow> npfloat" where
  "pd_mean xs = (if xs = [] then NaN else Fin (sum_list xs / real (length xs)))"

definition pd_std :: "real list \<Rightarrow> npfloat" where
  "pd_std xs =
     (if length xs < 2 then NaN
      else let mu = sum_list xs / real (length xs)
           in Fin (sqrt (sum_list (map (\<lambda>x. (x - mu)\<^sup>2) xs) / (real (length xs) - 1))))"

definition pd_min :: "npfloat list \<Rightarrow> npfloat" where
  "pd_min xs =
     (case filter (\<lambda>x. x \<noteq> NaN) xs of
        [] \<Rightarrow> NaN
      | y # ys \<Rightarrow> foldl np_minimum y ys)"

text \<open>\<open>np.cumprod\<close> and \<open>np.maximum.accumulate\<close> (pandas \<open>cumprod\<close>, \<open>cummax\<close>).\<close>

fun cumprod_from :: "real \<Rightarrow> real list \<Rightarrow> real list" where
  "cumprod_from acc [] = []"
| "cumprod_from acc (x # xs) = (acc * x) # cumprod_from (acc * x) xs"

definition cumprod :: "real list \<Rightarrow> real list" where
  "cumprod xs = cumprod_from 1 xs"

fun cummax_from :: "real \<Rightarrow> real list \<Rightarrow> real list" where
  "cummax_from m [] = []"
| "cummax_from m (x # xs) = max m x # cummax_from (max m x) xs"

fun cummax :: "real list \<Rightarrow> real list" where
  "cummax [] = []"
| "cummax (x # xs) = x # cummax_from x xs"

text \<open>
  \<open>np.percentile(a, q)\<close> with NumPy's default method, linear interpolation between the two
  nearest order statistics: the virtual index is \<open>q/100 * (n - 1)\<close>. A \<open>q\<close> outside
  \<open>[0, 100]\<close> raises \<open>ValueError\<close>, checked first; an empty array raises \<open>IndexError\<close>
  when the order statistics are taken.
\<close>

definition np_percentile :: "real list \<Rightarrow> real \<Rightarrow> error + npfloat" where
  "np_percentile a q =
     (if q < 0 \<or> 100 < q then Inl ValueError
      else if a = [] then Inl IndexError
      else let s = sort a;
               n = length a;
               idx = q / 100 * real (n - 1);
               lo = nat \<lfloor>idx\<rfloor>;
               hi = min (lo + 1) (n - 1);
               gamma = idx - real lo
           in Inr (Fin (s ! lo + gamma * (s ! hi - s ! lo))))"

text \<open>Python's \<open>xs[-window:]\<close> for an integer \<open>window\<close> of any sign.\<close>

definition py_tail :: "real list \<Rightarrow> int \<Rightarrow> real list" where
  "py_tail xs window =
     (let n = int (length xs);
          start = - window;
          k = (if start < 0 then max 0 (start + n) else min start n)
      in drop (nat k) xs)"

section \<open>Risk metrics\<close>

text \<open>\<open>calculate_var\<close> and \<open>calculate_es\<close> of the dynamic risk management guide.\<close>

definition calculate_var :: "real list \<Rightarrow> real \<Rightarrow> error + npfloat" where
  "calculate_var returns confidence_level =
     (case np_percentile returns ((1 - confidence_level) * 100) of
        Inl e \<Rightarrow> Inl e
      | Inr p \<Rightarrow> Inr (np_neg p))"

definition calculate_es :: "real list \<Rightarrow> npfloat \<Rightarrow> npfloat" where
  "calculate_es returns v =
     np_neg (np_mean (filter (\<lambda>r. np_less (Fin r) (np_neg v)) returns))"

text \<open>
  \<open>calculate_risk_metrics\<close> of the evaluation guide. Its result is a dictionary with the
  keys \<open>var\<close> and \<open>es\<close>; \<open>es\<close> is computed from the stored \<open>var\<close>.
\<close>

definition calculate_risk_metrics :: "real list \<Rightarrow> real \<Rightarrow> error + (string \<rightharpoonup> npfloat)" where
  "calculate_risk_metrics returns confidence_level =
     (case np_percentile returns ((1 - confidence_level) * 100) of
        Inl e \<Rightarrow> Inl e
      | Inr v \<Rightarrow>
          Inr [''var'' \<mapsto> v,
               ''es'' \<mapsto> np_mean (filter (\<lambda>r. np_le (Fin r) v) returns)])"

text \<open>Reading one entry of a returned dictionary.\<close>

definition get_metric :: "error + (string \<rightharpoonup> 'a) \<Rightarrow> string \<Rightarrow> 'a option" where
  "get_metric r k = (case r of Inl e \<Rightarrow> None | Inr d \<Rightarrow> d k)"


text \<open>
  \<open>analyze_drawdowns\<close> of the evaluation guide. \<open>calculate_drawdown_duration\<close> is not part of
  the sources and is a parameter. \<open>drawdowns.min()\<close> is evaluated first and raises
  \<open>ValueError\<close> on an empty array.
\<close>

definition drawdowns :: "real list \<Rightarrow> npfloat list" where
  "drawdowns returns =
     (let cumulative_returns = cumprod (map (\<lambda>r. 1 + r) returns);
          rolling_max = cummax cumulative_returns
      in map2 (\<lambda>c m. np_div (Fin (c - m)) (Fin m)) cumulative_returns rolling_max)"

definition analyze_drawdowns ::
  "(npfloat list \<Rightarrow> npfloat) \<Rightarrow> real list \<Rightarrow> error + (string \<rightharpoonup> npfloat)" where
  "analyze_drawdowns calculate_drawdown_duration returns =
     (case np_min_f (drawdowns returns) of
        Inl e \<Rightarrow> Inl e
      | Inr lowest \<Rightarrow>
          Inr [''max_drawdown'' \<mapsto> lowest,
               ''avg_drawdown'' \<mapsto> np_mean_f (drawdowns returns),
               ''drawdown_duration'' \<mapsto> calculate_drawdown_duration (drawdowns returns)])"

text \<open>
  Where an example needs a concrete \<open>calculate_drawdown_duration\<close>, it takes one that
  ignores the curve; no property below depends on it.
\<close>

definition constant_duration :: "npfloat list \<Rightarrow> npfloat" where
  "constant_duration ds = Fin 0"

text \<open>
  \<open>calculate_metrics\<close> of the statistical arbitrage guide, on a pandas series: the drawdown
  curve is written as cumulative over running maximum, minus one.
\<close>

datatype metric_value = Num npfloat | Positions "string \<rightharpoonup> real"

definition drawdown_curve :: "real list \<Rightarrow> npfloat list" where
  "drawdown_curve returns =
     (let cumulative = cumprod (map (\<lambda>r. 1 + r) returns)
      in map2 (\<lambda>c m. np_sub (np_div (Fin c) (Fin m)) (Fin 1)) cumulative (cummax cumulative))"

definition calculate_metrics ::
  "real list \<Rightarrow> (string \<rightharpoonup> real) \<Rightarrow> (string \<rightharpoonup> metric_value)" where
  "calculate_metrics returns positions =
     [''total_return'' \<mapsto> Num (Fin (prod_list (map (\<lambda>r. 1 + r) returns) - 1)),
      ''sharpe_ratio'' \<mapsto>
         Num (np_mul (np_div (pd_mean returns) (pd_std returns)) (Fin (sqrt 252))),
      ''max_drawdown'' \<mapsto> Num (pd_min (drawdown_curve returns)),
      ''current_positions'' \<mapsto> Positions positions]"

section \<open>Market regime\<close>

text \<open>
  \<open>analyze_volatility\<close> of the dynamic risk management guide. \<open>historical_vol\<close> is a
  module-level scalar, a parameter here. With NaN volatility (an empty window) both
  comparisons are false and the result is \<open>medium_volatility\<close>.
\<close>

definition analyze_volatility :: "real \<Rightarrow> real list \<Rightarrow> int \<Rightarrow> string" where
  "analyze_volatility historical_vol returns window =
     (let volatility = np_std (py_tail returns window)
      in if np_less (Fin (historical_vol * 1.5)) volatility then ''high_volatility''
         else if np_less volatility (Fin (historical_vol * 0.5)) then ''low_volatility''
         else ''medium_volatility'')"

section \<open>Statistical-arbitrage signals\<close>

text \<open>
  \<open>generate_pairs_signal\<close> and \<open>generate_mean_reversion_signal\<close> of the statistical
  arbitrage guide. A \<open>PairAnalysis\<close> holds plain Python floats, so the division in the pairs
  signal raises on a zero threshold. The mean-reversion z-score is a pandas value, which
  may be NaN or infinite. A \<open>Series\<close> is its \<open>name\<close> and its values, \<open>vals\<close>.
\<close>

datatype StatArbType = PAIRS_TRADING | MEAN_REVERSION

record PairAnalysis =
  asset_a :: string
  asset_b :: string
  correlation :: real
  hedge_ratio :: real
  half_life :: real
  zscore :: real

record TradingSignal =
  type :: StatArbType
  assets :: "string list"
  direction :: "npfloat list"
  confidence :: npfloat

record Series =
  name :: string
  vals :: "real list"

definition generate_pairs_signal :: "PairAnalysis \<Rightarrow> real \<Rightarrow> error + TradingSignal option" where
  "generate_pairs_signal pair zscore_threshold =
     (if \<bar>zscore pair\<bar> > zscore_threshold then
        (case py_div \<bar>zscore pair\<bar> zscore_threshold of
           Inl e \<Rightarrow> Inl e
         | Inr q \<Rightarrow>
             Inr (Some \<lparr>type = PAIRS_TRADING,
                        assets = [asset_a pair, asset_b pair],
                        direction = [Fin (- sgn (zscore pair)),
                                     Fin (sgn (zscore pair) * hedge_ratio pair)],
                        confidence = Fin (min q 1)\<rparr>))
      else Inr None)"

text \<open>
  \<open>prices.rolling(lookback)\<close>: the window ending at each position, missing until
  \<open>lookback\<close> observations are there; a negative window raises \<open>ValueError\<close>.
\<close>

definition rolling :: "real list \<Rightarrow> nat \<Rightarrow> real list option list" where
  "rolling xs w =
     map (\<lambda>i. if i + 1 < w then None else Some (take w (drop (i + 1 - w) xs)))
       [0..<length xs]"

definition rolling_zscore :: "real list \<Rightarrow> nat \<Rightarrow> npfloat list" where
  "rolling_zscore xs w =
     (let rolling_mean = map (case_option NaN pd_mean) (rolling xs w);
          rolling_std = map (case_option NaN pd_std) (rolling xs w)
      in map2 (\<lambda>p (m, s). np_div (np_sub (Fin p) m) s) xs (zip rolling_mean rolling_std))"

definition generate_mean_reversion_signal ::
  "Series \<Rightarrow> int \<Rightarrow> real \<Rightarrow> error + TradingSignal option" where
  "generate_mean_reversion_signal prices lookback zscore_threshold =
     (if lookback < 0 then Inl ValueError
      else let zs = rolling_zscore (vals prices) (nat lookback)
           in if zs = [] then Inl IndexError
              else let z = last zs
                   in if np_less (Fin zscore_threshold) (np_abs z) then
                        Inr (Some \<lparr>type = MEAN_REVERSION,
                                   assets = [name prices],
                                   direction = [np_neg (np_sign z)],
                                   confidence =
                                     py_min (np_div (np_abs z) (Fin zscore_threshold)) (Fin 1)\<rparr>)
                      else Inr None)"

section \<open>The specification's wording, for comparison\<close>

text \<open>
  The volatility tier as the specification words it: the trailing deviation over
  \<open>vol_window\<close> against the 33rd and 66th percentiles of a reference distribution of
  volatilities.
\<close>

definition spec_volatility_tier :: "real list \<Rightarrow> real list \<Rightarrow> int \<Rightarrow> error + string" where
  "spec_volatility_tier reference returns vol_window =
     (case np_percentile reference 33 of
        Inl e \<Rightarrow> Inl e
      | Inr p33 \<Rightarrow>
          (case np_percentile reference 66 of
             Inl e \<Rightarrow> Inl e
           | Inr p66 \<Rightarrow>
               (let volatility = np_std (py_tail returns vol_window)
                in Inr (if np_less volatility p33 then ''low_volatility''
                        else if np_less p66 volatility then ''high_volatility''
                        else ''medium_volatility''))))"


text \<open>
  The drawdown curve as the specification words it, over the reals: cumulative over
  running maximum, minus one, where cumulative is the running product of one plus the
  return.
\<close>

definition spec_drawdown_curve :: "real list \<Rightarrow> real list" where
  "spec_drawdown_curve returns =
     (let cumulative = cumprod (map (\<lambda>r. 1 + r) returns)
      in map2 (\<lambda>c m. c / m - 1) cumulative (cummax cumulative))"

text \<open>
  The average drawdown as the specification words it: the mean of the negative
  excursions of the drawdown curve only.
\<close>

definition spec_avg_drawdown :: "npfloat list \<Rightarrow> npfloat" where
  "spec_avg_drawdown curve = np_mean_f (filter (\<lambda>d. np_less d (Fin 0)) curve)"

section \<open>Properties of position sizing\<close>

lemma vol_abs_mono:
  fixes t v v' :: real
  assumes "0 < v" "v \<le> v'"
  shows "\<bar>min 1 (t / v')\<bar> \<le> \<bar>min 1 (t / v)\<bar>"
proof (cases "0 \<le> t")
  case True
  then have "t / v' \<le> t / v" using assms by (simp add: frac_le)
  moreover have "0 \<le> t / v'" using True assms by simp
  ultimately show ?thesis by (simp add: min_def)
next
  case False
  then have neg: "t < 0" by simp
  have "t / v \<le> t / v'" using neg assms
    by (simp add: divide_left_mono_neg)
  moreover have "t / v' < 0" using neg assms by (simp add: divide_neg_pos)
  moreover have "t / v < 0" using neg assms by (simp add: divide_neg_pos)
  ultimately have le: "t / v \<le> t / v'" and n': "t / v' < 0" and n: "t / v < 0"
    by blast+
  have "min 1 (t / v') = t / v'" "min 1 (t / v) = t / v"
    using n n' by (simp_all only: min_def) auto
  then have "\<bar>min 1 (t / v')\<bar> = - (t / v')" "\<bar>min 1 (t / v)\<bar> = - (t / v)"
    using abs_of_neg[OF n] abs_of_neg[OF n'] by (simp_all only:)
  then show ?thesis using le by linarith
qed

lemma sizing_factors:
  assumes "volatility metrics \<noteq> 0" "max_drawdown g \<noteq> 0" "min_confidence g \<noteq> 1"
  shows "vol_factor g metrics = Inr (min 1 (target_vol g / volatility metrics))"
    and "dd_factor g metrics = Inr (1 - drawdown metrics / max_drawdown g)"
    and "conf_factor g metrics =
           Inr (max 0 ((model_confidence metrics - min_confidence g) / (1 - min_confidence g)))"
    and "adjust_position_size g base_size metrics =
           Inr (base_size * min 1 (target_vol g / volatility metrics)
                 * (1 - drawdown metrics / max_drawdown g)
                 * max 0 ((model_confidence metrics - min_confidence g) / (1 - min_confidence g)))"
  using assms
  by (simp_all add: vol_factor_def dd_factor_def conf_factor_def adjust_position_size_def py_div_def)

lemma adjust_position_size_returns:
  assumes "adjust_position_size g base_size metrics = Inr s"
  shows "volatility metrics \<noteq> 0" "max_drawdown g \<noteq> 0" "min_confidence g \<noteq> 1"
  using assms
  by (auto simp: adjust_position_size_def vol_factor_def dd_factor_def conf_factor_def py_div_def
      split: if_splits sum.splits)

text \<open>
  C1, as the code has it. The drawdown factor is \<open>1 - metrics.drawdown / max_drawdown\<close> and
  is not floored: for a positive \<open>max_drawdown\<close> it coincides with
  \<open>max(0, 1 - drawdown / max_drawdown)\<close> exactly when the drawdown does not exceed
  \<open>max_drawdown\<close>. When the drawdown equals \<open>max_drawdown\<close> the factor is 0 and the size
  returned is 0, whatever the base size and the confidence (the other two quotients being
  defined).
\<close>

theorem dd_factor_not_floored:
  assumes "0 < max_drawdown g"
  shows "dd_factor g metrics = Inr (1 - drawdown metrics / max_drawdown g)
    \<and> (dd_factor g metrics = Inr (max 0 (1 - drawdown metrics / max_drawdown g))
          \<longleftrightarrow> drawdown metrics \<le> max_drawdown g)
    \<and> (drawdown metrics = max_drawdown g \<and> volatility metrics \<noteq> 0 \<and> min_confidence g \<noteq> 1
          \<longrightarrow> dd_factor g metrics = Inr 0
              \<and> adjust_position_size g base_size metrics = Inr 0)"
proof -
  have nz: "max_drawdown g \<noteq> 0" using assms by simp
  have d: "dd_factor g metrics = Inr (1 - drawdown metrics / max_drawdown g)"
    using nz by (simp add: dd_factor_def py_div_def)
  have "(1 - drawdown metrics / max_drawdown g = max 0 (1 - drawdown metrics / max_drawdown g))
      \<longleftrightarrow> drawdown metrics / max_drawdown g \<le> 1"
    by (auto simp: max_def)
  also have "\<dots> \<longleftrightarrow> drawdown metrics \<le> max_drawdown g"
    using assms by (simp add: divide_le_eq)
  finally have f: "dd_factor g metrics = Inr (max 0 (1 - drawdown metrics / max_drawdown g))
      \<longleftrightarrow> drawdown metrics \<le> max_drawdown g"
    by (simp add: d)
  have z: "drawdown metrics = max_drawdown g \<and> volatility metrics \<noteq> 0 \<and> min_confidence g \<noteq> 1
      \<longrightarrow> dd_factor g metrics = Inr 0 \<and> adjust_position_size g base_size metrics = Inr 0"
  proof
    assume h: "drawdown metrics = max_drawdown g \<and> volatility metrics \<noteq> 0 \<and> min_confidence g \<noteq> 1"
    then have one: "drawdown metrics / max_drawdown g = 1" using nz by simp
    have "adjust_position_size g base_size metrics = Inr 0"
      using h nz sizing_factors(4)[of metrics g base_size] by (simp add: one)
    then show "dd_factor g metrics = Inr 0 \<and> adjust_position_size g base_size metrics = Inr 0"
      using d one by simp
  qed
  from d f z show ?thesis by blast
qed

theorem dd_factor_not_floored_witness:
  "dd_factor \<lparr>target_vol = 0.02, max_drawdown = 0.2, min_confidence = 0.6\<rparr>
      \<lparr>var = 0.01, es = 0.015, volatility = 0.03, drawdown = 0.2, sharpe_ratio = 1,
       model_confidence = 0.9\<rparr> = Inr 0
   \<and> adjust_position_size \<lparr>target_vol = 0.02, max_drawdown = 0.2, min_confidence = 0.6\<rparr> 0.5
      \<lparr>var = 0.01, es = 0.015, volatility = 0.03, drawdown = 0.2, sharpe_ratio = 1,
       model_confidence = 0.9\<rparr> = Inr 0"
  using dd_factor_not_floored
    [of "\<lparr>target_vol = 0.02, max_drawdown = 0.2, min_confidence = 0.6\<rparr>"
        "\<lparr>var = 0.01, es = 0.015, volatility = 0.03, drawdown = 0.2, sharpe_ratio = 1,
          model_confidence = 0.9\<rparr>" "0.5"]
  by simp

text \<open>
  C1 as stated fails beyond the limit: with a drawdown of 0.3 against a \<open>max_drawdown\<close> of
  0.2 the factor is \<open>-1/2\<close>, not \<open>max(0, -1/2) = 0\<close>, and a base size of 1 comes back as
  \<open>-1/4\<close>, a position in the opposite direction.
\<close>

theorem dd_factor_negative_beyond_limit:
  "dd_factor \<lparr>target_vol = 0.02, max_drawdown = 0.2, min_confidence = 0.6\<rparr>
      \<lparr>var = 0.01, es = 0.015, volatility = 0.02, drawdown = 0.3, sharpe_ratio = 1,
       model_confidence = 0.8\<rparr>
     = Inr (- 1 / 2)
   \<and> max 0 (1 - 0.3 / 0.2) = (0::real)
   \<and> adjust_position_size \<lparr>target_vol = 0.02, max_drawdown = 0.2, min_confidence = 0.6\<rparr> 1
      \<lparr>var = 0.01, es = 0.015, volatility = 0.02, drawdown = 0.3, sharpe_ratio = 1,
       model_confidence = 0.8\<rparr>
     = Inr (- 1 / 4)"
  by (simp add: dd_factor_def adjust_position_size_def vol_factor_def conf_factor_def py_div_def)

text \<open>
  C2, as the code has it. With \<open>min_confidence\<close> below 1 the confidence factor is
  \<open>max(0, (confidence - min_confidence) / (1 - min_confidence))\<close> at or above the floor and 0
  below it. When \<open>metrics.volatility\<close> and \<open>max_drawdown\<close> are not zero the function returns
  the product of the base size and the three factors, which below the floor is exactly 0,
  for every base size and all other metrics. When one of the two is zero it raises
  \<open>ZeroDivisionError\<close> and returns nothing.
\<close>

theorem size_zero_below_min_confidence:
  assumes "min_confidence g < 1"
  shows "conf_factor g metrics =
           Inr (if model_confidence metrics \<ge> min_confidence g
                then max 0 ((model_confidence metrics - min_confidence g) / (1 - min_confidence g))
                else 0)
    \<and> (volatility metrics \<noteq> 0 \<and> max_drawdown g \<noteq> 0 \<longrightarrow>
          (\<exists>v d c. vol_factor g metrics = Inr v \<and> dd_factor g metrics = Inr d
             \<and> conf_factor g metrics = Inr c
             \<and> adjust_position_size g base_size metrics = Inr (base_size * v * d * c))
          \<and> (model_confidence metrics < min_confidence g
                \<longrightarrow> adjust_position_size g base_size metrics = Inr 0))
    \<and> (volatility metrics = 0 \<or> max_drawdown g = 0 \<longrightarrow>
          adjust_position_size g base_size metrics = Inl ZeroDivisionError)"
proof -
  let ?q = "(model_confidence metrics - min_confidence g) / (1 - min_confidence g)"
  have d: "0 < 1 - min_confidence g" and ne: "min_confidence g \<noteq> 1" using assms by simp_all
  have q: "model_confidence metrics < min_confidence g \<Longrightarrow> ?q < 0"
    using d by (simp add: divide_neg_pos)
  have cf: "max 0 ?q = (if model_confidence metrics \<ge> min_confidence g then max 0 ?q else 0)"
    using q by (cases "model_confidence metrics < min_confidence g") (simp_all add: max_def)
  have "conf_factor g metrics = Inr (max 0 ?q)"
    using ne by (simp add: conf_factor_def py_div_def)
  with cf have c': "conf_factor g metrics =
      Inr (if model_confidence metrics \<ge> min_confidence g then max 0 ?q else 0)"
    by simp
  have r: "(\<exists>v d c. vol_factor g metrics = Inr v \<and> dd_factor g metrics = Inr d
             \<and> conf_factor g metrics = Inr c
             \<and> adjust_position_size g base_size metrics = Inr (base_size * v * d * c))
          \<and> (model_confidence metrics < min_confidence g
                \<longrightarrow> adjust_position_size g base_size metrics = Inr 0)"
    if nz: "volatility metrics \<noteq> 0 \<and> max_drawdown g \<noteq> 0"
  proof -
    from nz have v: "volatility metrics \<noteq> 0" and m: "max_drawdown g \<noteq> 0" by simp_all
    note f = sizing_factors[OF v m ne]
    have z: "model_confidence metrics < min_confidence g
        \<longrightarrow> adjust_position_size g base_size metrics = Inr 0"
    proof
      assume "model_confidence metrics < min_confidence g"
      then have "max 0 ?q = 0" using q by (simp only: max_def) auto
      then show "adjust_position_size g base_size metrics = Inr 0"
        by (simp only: f(4) mult_zero_right)
    qed
    from f z show ?thesis by blast
  qed
  have e: "adjust_position_size g base_size metrics = Inl ZeroDivisionError"
    if "volatility metrics = 0 \<or> max_drawdown g = 0"
    using that
    by (auto simp: adjust_position_size_def vol_factor_def dd_factor_def py_div_def
        split: sum.splits)
  from c' r e show ?thesis by blast
qed

theorem size_zero_below_min_confidence_witness:
  "adjust_position_size \<lparr>target_vol = 0.02, max_drawdown = 0.2, min_confidence = 0.6\<rparr> 0.5
      \<lparr>var = 0.01, es = 0.015, volatility = 0.02, drawdown = 0.05, sharpe_ratio = 1,
       model_confidence = 0.5\<rparr> = Inr 0"
  using size_zero_below_min_confidence
    [of "\<lparr>target_vol = 0.02, max_drawdown = 0.2, min_confidence = 0.6\<rparr>"
        "\<lparr>var = 0.01, es = 0.015, volatility = 0.02, drawdown = 0.05, sharpe_ratio = 1,
          model_confidence = 0.5\<rparr>" "0.5"]
  by simp

text \<open>
  C2 as stated fails. With a confidence of 0.5 below the floor 0.6 and a volatility of 0
  the call raises \<open>ZeroDivisionError\<close> instead of returning 0. With \<open>min_confidence = 1.5\<close> a
  confidence of 1.0 is below the floor, the quotient is \<open>(-0.5) / (-0.5) = 1\<close> and a base
  size of 0.5 comes back unchanged.
\<close>

theorem size_not_zero_below_min_confidence:
  "adjust_position_size \<lparr>target_vol = 0.02, max_drawdown = 0.2, min_confidence = 0.6\<rparr> 0.5
      \<lparr>var = 0, es = 0, volatility = 0, drawdown = 0.05, sharpe_ratio = 0,
       model_confidence = 0.5\<rparr> = Inl ZeroDivisionError
   \<and> adjust_position_size \<lparr>target_vol = 0.02, max_drawdown = 0.2, min_confidence = 1.5\<rparr> 0.5
      \<lparr>var = 0.01, es = 0.015, volatility = 0.02, drawdown = 0, sharpe_ratio = 1,
       model_confidence = 1\<rparr> = Inr 0.5"
  by (simp add: adjust_position_size_def vol_factor_def dd_factor_def conf_factor_def py_div_def)

text \<open>
  C6. Raising \<open>metrics.volatility\<close> from a positive value, everything else fixed, never
  raises the magnitude of the size: whenever both calls return, the second size is no
  larger in absolute value; and both return whenever \<open>max_drawdown\<close> is not zero and
  \<open>min_confidence\<close> is not 1.
\<close>

theorem size_antitone_in_volatility:
  assumes "0 < volatility metrics" "volatility metrics \<le> v'"
  shows "(\<forall>s s'. adjust_position_size g base_size metrics = Inr s
             \<and> adjust_position_size g base_size (metrics\<lparr>volatility := v'\<rparr>) = Inr s'
           \<longrightarrow> \<bar>s'\<bar> \<le> \<bar>s\<bar>)
    \<and> (max_drawdown g \<noteq> 0 \<and> min_confidence g \<noteq> 1 \<longrightarrow>
         (\<exists>s s'. adjust_position_size g base_size metrics = Inr s
            \<and> adjust_position_size g base_size (metrics\<lparr>volatility := v'\<rparr>) = Inr s'))"
proof -
  let ?d = "1 - drawdown metrics / max_drawdown g"
  let ?c = "max 0 ((model_confidence metrics - min_confidence g) / (1 - min_confidence g))"
  let ?s = "base_size * min 1 (target_vol g / volatility metrics) * ?d * ?c"
  let ?s' = "base_size * min 1 (target_vol g / v') * ?d * ?c"
  have v': "v' \<noteq> 0" "volatility metrics \<noteq> 0" using assms by auto
  have both: "adjust_position_size g base_size metrics = Inr ?s
      \<and> adjust_position_size g base_size (metrics\<lparr>volatility := v'\<rparr>) = Inr ?s'"
    if "max_drawdown g \<noteq> 0" "min_confidence g \<noteq> 1"
    using sizing_factors(4)[OF v'(2) that, of base_size]
      sizing_factors(4)[of "metrics\<lparr>volatility := v'\<rparr>" g base_size] v' that
    by simp
  have "\<bar>?s'\<bar> = \<bar>base_size\<bar> * \<bar>min 1 (target_vol g / v')\<bar> * (\<bar>?d\<bar> * \<bar>?c\<bar>)"
    by (simp add: abs_mult)
  also have "\<dots> \<le> \<bar>base_size\<bar> * \<bar>min 1 (target_vol g / volatility metrics)\<bar> * (\<bar>?d\<bar> * \<bar>?c\<bar>)"
    using vol_abs_mono[OF assms(1,2)]
    by (intro mult_right_mono mult_left_mono) auto
  also have "\<dots> = \<bar>?s\<bar>"
    by (simp add: abs_mult)
  finally have le: "\<bar>?s'\<bar> \<le> \<bar>?s\<bar>" .
  have mono: "\<bar>s'\<bar> \<le> \<bar>s\<bar>"
    if a: "adjust_position_size g base_size metrics = Inr s"
      and a': "adjust_position_size g base_size (metrics\<lparr>volatility := v'\<rparr>) = Inr s'"
    for s s'
  proof -
    from both[OF adjust_position_size_returns(2,3)[OF a]] a a'
    have "s = ?s" "s' = ?s'" by simp_all
    then show ?thesis using le by (simp only:)
  qed
  from mono both show ?thesis by blast
qed

theorem size_antitone_in_volatility_witness:
  "\<exists>s s'. adjust_position_size \<lparr>target_vol = 0.02, max_drawdown = 0.2, min_confidence = 0.6\<rparr> 0.5
              \<lparr>var = 0.01, es = 0.015, volatility = 0.02, drawdown = 0, sharpe_ratio = 1,
               model_confidence = 0.9\<rparr> = Inr s
         \<and> adjust_position_size \<lparr>target_vol = 0.02, max_drawdown = 0.2, min_confidence = 0.6\<rparr> 0.5
              \<lparr>var = 0.01, es = 0.015, volatility = 0.04, drawdown = 0, sharpe_ratio = 1,
               model_confidence = 0.9\<rparr> = Inr s'
         \<and> \<bar>s'\<bar> \<le> \<bar>s\<bar>"
  using size_antitone_in_volatility
    [of "\<lparr>var = 0.01, es = 0.015, volatility = 0.02, drawdown = 0, sharpe_ratio = 1,
          model_confidence = 0.9\<rparr>" "0.04"
        "\<lparr>target_vol = 0.02, max_drawdown = 0.2, min_confidence = 0.6\<rparr>" "0.5"]
  by auto

section \<open>Properties of the risk metrics\<close>


lemma lerp_between:
  fixes x y g :: real
  assumes "x \<le> y" "0 \<le> g" "g \<le> 1"
  shows "x \<le> x + g * (y - x)" and "x + g * (y - x) \<le> y"
proof -
  have d: "0 \<le> y - x" using assms by simp
  have "0 \<le> g * (y - x)" using assms(2) d by (rule mult_nonneg_nonneg)
  then show "x \<le> x + g * (y - x)" by simp
  have "g * (y - x) \<le> 1 * (y - x)" using assms(3) d by (rule mult_right_mono)
  then show "x + g * (y - x) \<le> y" by simp
qed

lemma np_percentile_range:
  assumes "a \<noteq> []" "0 \<le> q" "q \<le> 100"
  shows "\<exists>v. np_percentile a q = Inr (Fin v) \<and> (\<exists>r\<in>set a. r \<le> v) \<and> (\<exists>r\<in>set a. v \<le> r)"
proof -
  let ?s = "sort a"
  let ?n = "length a"
  let ?idx = "q / 100 * real (?n - 1)"
  let ?lo = "nat \<lfloor>?idx\<rfloor>"
  let ?hi = "min (?lo + 1) (?n - 1)"
  let ?g = "?idx - real ?lo"
  let ?v = "?s ! ?lo + ?g * (?s ! ?hi - ?s ! ?lo)"
  have n: "0 < ?n" using assms by simp
  have i0: "0 \<le> ?idx" using assms by simp
  have "q / 100 \<le> 1" using assms by simp
  then have "?idx \<le> 1 * real (?n - 1)" by (intro mult_right_mono) auto
  then have i1: "?idx \<le> real (?n - 1)" by simp
  have "\<lfloor>?idx\<rfloor> \<le> int (?n - 1)" using i1 by (simp add: floor_le_iff)
  then have lo: "?lo \<le> ?n - 1" using i0 by linarith
  then have "?lo < ?n" using n by linarith
  then have lo_lt: "?lo < length ?s" by (simp only: length_sort)
  have "?hi < ?n" using n by (simp only: min_less_iff_disj) linarith
  then have hi_lt: "?hi < length ?s" by (simp only: length_sort)
  have lohi: "?lo \<le> ?hi" using lo by simp
  have fl: "real ?lo = of_int \<lfloor>?idx\<rfloor>" using i0 by simp
  have g0: "0 \<le> ?g" using fl by linarith
  have g1: "?g \<le> 1" using fl by linarith
  have so: "?s ! ?lo \<le> ?s ! ?hi"
    using sorted_nth_mono[OF sorted_sort lohi hi_lt] .
  have le: "?s ! ?lo \<le> ?v" using so g0 g1 by (rule lerp_between(1))
  have ge: "?v \<le> ?s ! ?hi" using so g0 g1 by (rule lerp_between(2))
  have "?s ! ?lo \<in> set ?s" using lo_lt by (rule nth_mem)
  then have mem: "?s ! ?lo \<in> set a" by simp
  have "?s ! ?hi \<in> set ?s" using hi_lt by (rule nth_mem)
  then have mem': "?s ! ?hi \<in> set a" by simp
  have eq: "np_percentile a q = Inr (Fin ?v)"
    using assms by (simp add: np_percentile_def Let_def)
  show ?thesis
    by (rule exI[of _ ?v], intro conjI, rule eq, rule bexI[of _ "?s ! ?lo"], rule le, rule mem,
        rule bexI[of _ "?s ! ?hi"], rule ge, rule mem')
qed

lemma sum_list_const_filter:
  fixes v :: real
  assumes "\<forall>r\<in>set xs. r = v"
  shows "sum_list xs = real (length xs) * v"
  using assms by (induction xs) (auto simp: algebra_simps)

text \<open>
  In \<open>calculate_risk_metrics\<close> the percentile of a non-empty series is never below its
  smallest return, so the returns at or below \<open>var\<close> are never empty: \<open>es\<close> is their mean,
  a finite value, and it is \<open>var\<close> itself when no return lies strictly below \<open>var\<close>.
\<close>

lemma calculate_risk_metrics_es:
  assumes "returns \<noteq> []" "0 \<le> confidence_level" "confidence_level \<le> 1"
  shows "\<exists>v. get_metric (calculate_risk_metrics returns confidence_level) ''var'' = Some (Fin v)
     \<and> filter (\<lambda>r. r \<le> v) returns \<noteq> []
     \<and> get_metric (calculate_risk_metrics returns confidence_level) ''es''
          = Some (Fin (sum_list (filter (\<lambda>r. r \<le> v) returns)
                        / real (length (filter (\<lambda>r. r \<le> v) returns))))
     \<and> ((\<forall>r\<in>set returns. \<not> r < v) \<longrightarrow>
          get_metric (calculate_risk_metrics returns confidence_level) ''es'' = Some (Fin v))"
proof -
  have q: "0 \<le> (1 - confidence_level) * 100" "(1 - confidence_level) * 100 \<le> 100"
    using assms by auto
  from np_percentile_range[OF assms(1) q] obtain v r where
    p: "np_percentile returns ((1 - confidence_level) * 100) = Inr (Fin v)"
    and r: "r \<in> set returns" "r \<le> v" by blast
  let ?tail = "filter (\<lambda>r. r \<le> v) returns"
  have ne: "?tail \<noteq> []" using r by (auto simp: filter_empty_conv)
  have var: "get_metric (calculate_risk_metrics returns confidence_level) ''var'' = Some (Fin v)"
    unfolding get_metric_def calculate_risk_metrics_def p by simp
  have es: "get_metric (calculate_risk_metrics returns confidence_level) ''es''
      = Some (Fin (sum_list ?tail / real (length ?tail)))"
    unfolding get_metric_def calculate_risk_metrics_def p using ne by (simp add: np_mean_def)
  have deg: "(\<forall>r\<in>set returns. \<not> r < v) \<longrightarrow>
      get_metric (calculate_risk_metrics returns confidence_level) ''es'' = Some (Fin v)"
  proof
    assume "\<forall>r\<in>set returns. \<not> r < v"
    then have "\<forall>r\<in>set ?tail. r = v" by auto
    then have "sum_list ?tail = real (length ?tail) * v" by (rule sum_list_const_filter)
    then have "sum_list ?tail / real (length ?tail) = v" using ne by simp
    then show "get_metric (calculate_risk_metrics returns confidence_level) ''es'' = Some (Fin v)"
      using es by simp
  qed
  from var ne es deg show ?thesis by blast
qed

text \<open>
  C3, as the code has it. For the returns 0.01, -0.02, 0.015, -0.01, 0.005 at confidence
  level 0.8, \<open>calculate_risk_metrics\<close> stores \<open>var = -0.012\<close>, the 20th percentile
  interpolated linearly between the two smallest returns (virtual index 0.8), and
  \<open>es = -0.02\<close>, the mean of the returns at or below \<open>var\<close>. \<open>calculate_var\<close> gives 0.012 and
  \<open>calculate_es\<close> on it gives 0.02.
\<close>

theorem scenario1_risk_metrics:
  "calculate_risk_metrics [0.01, -0.02, 0.015, -0.01, 0.005] 0.8
     = Inr [''var'' \<mapsto> Fin (- 0.012), ''es'' \<mapsto> Fin (- 0.02)]
   \<and> calculate_var [0.01, -0.02, 0.015, -0.01, 0.005] 0.8 = Inr (Fin 0.012)
   \<and> calculate_es [0.01, -0.02, 0.015, -0.01, 0.005] (Fin 0.012) = Fin 0.02"
  by (simp add: calculate_risk_metrics_def calculate_var_def calculate_es_def np_percentile_def
      Let_def np_mean_def)

text \<open>
  C3 as stated fails: the VaR of that sample is not its minimum -0.02, in either
  implementation.
\<close>

theorem scenario1_var_not_minimum:
  "get_metric (calculate_risk_metrics [0.01, -0.02, 0.015, -0.01, 0.005] 0.8) ''var''
      \<noteq> Some (Fin (- 0.02))
   \<and> calculate_var [0.01, -0.02, 0.015, -0.01, 0.005] 0.8 \<noteq> Inr (Fin (- 0.02))"
  by (simp add: get_metric_def calculate_risk_metrics_def calculate_var_def np_percentile_def
      Let_def)

text \<open>
  C4 on \<open>calculate_es\<close>. With two returns tied at the minimum -0.02, \<open>calculate_var\<close> at
  confidence level 0.8 is 0.02 and no return lies strictly below \<open>-var\<close>: \<open>calculate_es\<close>
  takes the mean of an empty selection and returns NaN. On the same series
  \<open>calculate_risk_metrics\<close>, which selects with \<open>\<le>\<close>, returns \<open>es = var = -0.02\<close>.
\<close>

theorem calculate_es_degenerate_nan:
  "calculate_var [- 0.02, - 0.02, 0.01, 0.015, 0.005] 0.8 = Inr (Fin 0.02)
   \<and> calculate_es [- 0.02, - 0.02, 0.01, 0.015, 0.005] (Fin 0.02) = NaN
   \<and> get_metric (calculate_risk_metrics [- 0.02, - 0.02, 0.01, 0.015, 0.005] 0.8) ''var''
       = Some (Fin (- 0.02))
   \<and> get_metric (calculate_risk_metrics [- 0.02, - 0.02, 0.01, 0.015, 0.005] 0.8) ''es''
       = Some (Fin (- 0.02))"
  by (simp add: get_metric_def calculate_risk_metrics_def calculate_var_def calculate_es_def
      np_percentile_def Let_def np_mean_def)

text \<open>
  C5, as the code has it. The two implementations differ in sign: \<open>calculate_var\<close> returns
  the negated \<open>(1 - confidence_level) * 100\<close> percentile, \<open>calculate_risk_metrics\<close> stores the
  percentile itself under \<open>var\<close>; both fail together when the percentile does. For a
  non-empty series and a confidence level in \<open>[0, 1]\<close> the percentile is a finite value
  within the range of the sample, and both return.
\<close>

theorem var_sign_conventions:
  "calculate_var returns confidence_level
     = (case np_percentile returns ((1 - confidence_level) * 100) of
          Inl e \<Rightarrow> Inl e | Inr p \<Rightarrow> Inr (np_neg p))
   \<and> get_metric (calculate_risk_metrics returns confidence_level) ''var''
     = (case np_percentile returns ((1 - confidence_level) * 100) of
          Inl e \<Rightarrow> None | Inr p \<Rightarrow> Some p)
   \<and> (returns \<noteq> [] \<and> 0 \<le> confidence_level \<and> confidence_level \<le> 1 \<longrightarrow>
        (\<exists>p. np_percentile returns ((1 - confidence_level) * 100) = Inr (Fin p)
           \<and> (\<exists>r\<in>set returns. r \<le> p) \<and> (\<exists>r\<in>set returns. p \<le> r)
           \<and> calculate_var returns confidence_level = Inr (Fin (- p))
           \<and> get_metric (calculate_risk_metrics returns confidence_level) ''var'' = Some (Fin p)))"
proof (intro conjI impI)
  show "calculate_var returns confidence_level
     = (case np_percentile returns ((1 - confidence_level) * 100) of
          Inl e \<Rightarrow> Inl e | Inr p \<Rightarrow> Inr (np_neg p))"
    by (simp add: calculate_var_def)
  show "get_metric (calculate_risk_metrics returns confidence_level) ''var''
     = (case np_percentile returns ((1 - confidence_level) * 100) of
          Inl e \<Rightarrow> None | Inr p \<Rightarrow> Some p)"
    by (simp add: get_metric_def calculate_risk_metrics_def split: sum.splits)
next
  assume h: "returns \<noteq> [] \<and> 0 \<le> confidence_level \<and> confidence_level \<le> 1"
  then have q: "0 \<le> (1 - confidence_level) * 100" "(1 - confidence_level) * 100 \<le> 100"
    by auto
  from h have ne: "returns \<noteq> []" by simp
  from np_percentile_range[OF ne q] obtain p where
    p: "np_percentile returns ((1 - confidence_level) * 100) = Inr (Fin p)"
    and lo: "\<exists>r\<in>set returns. r \<le> p" and hi: "\<exists>r\<in>set returns. p \<le> r" by blast
  have v: "calculate_var returns confidence_level = Inr (Fin (- p))"
    unfolding calculate_var_def p by simp
  have m: "get_metric (calculate_risk_metrics returns confidence_level) ''var'' = Some (Fin p)"
    unfolding get_metric_def calculate_risk_metrics_def p by simp
  from p lo hi v m show "\<exists>p. np_percentile returns ((1 - confidence_level) * 100) = Inr (Fin p)
           \<and> (\<exists>r\<in>set returns. r \<le> p) \<and> (\<exists>r\<in>set returns. p \<le> r)
           \<and> calculate_var returns confidence_level = Inr (Fin (- p))
           \<and> get_metric (calculate_risk_metrics returns confidence_level) ''var'' = Some (Fin p)"
    by blast
qed

theorem var_sign_conventions_witness:
  "calculate_var [- (3 / 100), 1 / 100, 2 / 100] (1 / 2) = Inr (Fin (- (1 / 100)))
   \<and> get_metric (calculate_risk_metrics [- (3 / 100), 1 / 100, 2 / 100] (1 / 2)) ''var''
       = Some (Fin (1 / 100))"
proof -
  have p: "np_percentile [- (3 / 100), 1 / 100, 2 / 100] ((1 - 1 / 2) * 100) = Inr (Fin (1 / 100))"
    by (simp add: np_percentile_def Let_def)
  from var_sign_conventions[of "[- (3 / 100), 1 / 100, 2 / 100]" "1 / 2"]
  have "\<exists>q. np_percentile [- (3 / 100), 1 / 100, 2 / 100] ((1 - 1 / 2) * 100) = Inr (Fin q)
      \<and> calculate_var [- (3 / 100), 1 / 100, 2 / 100] (1 / 2) = Inr (Fin (- q))
      \<and> get_metric (calculate_risk_metrics [- (3 / 100), 1 / 100, 2 / 100] (1 / 2)) ''var''
          = Some (Fin q)"
    by auto
  then show ?thesis unfolding p by auto
qed

text \<open>
  C5 as stated fails for \<open>calculate_risk_metrics\<close>: the median of -0.03, 0.01, 0.02 is 0.01
  and \<open>var\<close> is 0.01, not its negation.
\<close>

theorem risk_metrics_var_not_negated:
  "np_percentile [- 0.03, 0.01, 0.02] ((1 - 0.5) * 100) = Inr (Fin 0.01)
   \<and> get_metric (calculate_risk_metrics [- 0.03, 0.01, 0.02] 0.5) ''var''
       \<noteq> Some (np_neg (Fin 0.01))"
  by (simp add: get_metric_def calculate_risk_metrics_def np_percentile_def Let_def)

section \<open>Properties of the performance ratios\<close>



lemma np_std_nonneg: "np_std xs = Fin sigma \<Longrightarrow> 0 \<le> sigma"
proof -
  assume a: "np_std xs = Fin sigma"
  then have ne: "xs \<noteq> []" by (auto simp: np_std_def)
  have "0 \<le> sum_list (map (\<lambda>y. (y - sum_list xs / real (length xs))\<^sup>2) xs)"
    by (rule sum_list_nonneg) auto
  then show ?thesis using a ne by (auto simp: np_std_def Let_def)
qed

lemma sqrt_1_1600: "sqrt (1 / 1600) = 1 / 40"
  by (rule real_sqrt_unique) (simp_all add: power2_eq_square)









section \<open>Properties of the drawdown analysis\<close>

lemma cumprod_from_pos:
  "0 < acc \<Longrightarrow> \<forall>x\<in>set xs. 0 < x \<Longrightarrow> \<forall>c\<in>set (cumprod_from acc xs). 0 < c"
proof (induction xs arbitrary: acc)
  case Nil
  then show ?case by simp
next
  case (Cons x xs)
  have p: "0 < acc * x" using Cons.prems by simp
  have "\<forall>y\<in>set xs. 0 < y" using Cons.prems by simp
  with p have "\<forall>c\<in>set (cumprod_from (acc * x) xs). 0 < c" by (rule Cons.IH)
  with p show ?case by simp
qed

lemma cummax_from_pos: "0 < m \<Longrightarrow> \<forall>c\<in>set (cummax_from m xs). 0 < c"
proof (induction xs arbitrary: m)
  case Nil
  then show ?case by simp
next
  case (Cons x xs)
  have p: "0 < max m x" using Cons.prems by simp
  then have "\<forall>c\<in>set (cummax_from (max m x) xs). 0 < c" by (rule Cons.IH)
  with p show ?case by simp
qed

lemma cummax_pos: "\<forall>x\<in>set xs. 0 < x \<Longrightarrow> \<forall>c\<in>set (cummax xs). 0 < c"
  by (cases xs) (auto dest: cummax_from_pos [rule_format])

lemma length_cumprod_from: "length (cumprod_from acc xs) = length xs"
  by (induction xs arbitrary: acc) auto

lemma length_cummax_from: "length (cummax_from m xs) = length xs"
  by (induction xs arbitrary: m) auto

lemma length_cummax: "length (cummax xs) = length xs"
  by (cases xs) (auto simp: length_cummax_from)

lemma growth_curve_pos:
  assumes "\<forall>r\<in>set returns. - 1 < r"
  shows "\<forall>m\<in>set (cummax (cumprod (map (\<lambda>r. 1 + r) returns))). 0 < (m::real)"
proof -
  have "\<forall>x\<in>set (map (\<lambda>r. 1 + r) returns). 0 < x" using assms by auto
  then have "\<forall>c\<in>set (cumprod (map (\<lambda>r. 1 + r) returns)). 0 < c"
    unfolding cumprod_def by (intro cumprod_from_pos) auto
  then show ?thesis by (rule cummax_pos)
qed

lemma drawdowns_finite:
  assumes "\<forall>r\<in>set returns. - 1 < r"
  shows "drawdowns returns = map Fin (spec_drawdown_curve returns)"
    and "drawdown_curve returns = map Fin (spec_drawdown_curve returns)"
proof -
  define cum where "cum = cumprod (map (\<lambda>r. 1 + r) returns)"
  define Z where "Z = zip cum (cummax cum)"
  have nz: "m \<noteq> 0" if "(c, m) \<in> set Z" for c m
  proof -
    from that have "m \<in> set (cummax cum)" unfolding Z_def by (rule set_zip_rightD)
    then have "0 < m" using growth_curve_pos[OF assms] unfolding cum_def by blast
    then show ?thesis by simp
  qed
  have s: "spec_drawdown_curve returns = map (\<lambda>(c, m). c / m - 1) Z"
    by (simp add: spec_drawdown_curve_def Let_def cum_def Z_def)
  have "drawdowns returns = map (\<lambda>(c, m). np_div (Fin (c - m)) (Fin m)) Z"
    by (simp add: drawdowns_def Let_def cum_def Z_def)
  also have "\<dots> = map (\<lambda>(c, m). Fin (c / m - 1)) Z"
  proof (rule map_cong[OF refl])
    fix p assume p: "p \<in> set Z"
    obtain c m where cm: "p = (c, m)" by (cases p)
    with p have "m \<noteq> 0" using nz by blast
    then show "(case p of (c, m) \<Rightarrow> np_div (Fin (c - m)) (Fin m))
        = (case p of (c, m) \<Rightarrow> Fin (c / m - 1))"
      by (simp add: cm diff_divide_distrib)
  qed
  also have "\<dots> = map Fin (spec_drawdown_curve returns)"
    by (simp add: s case_prod_beta comp_def)
  finally show "drawdowns returns = map Fin (spec_drawdown_curve returns)" .
  have "drawdown_curve returns = map (\<lambda>(c, m). np_sub (np_div (Fin c) (Fin m)) (Fin 1)) Z"
    by (simp add: drawdown_curve_def Let_def cum_def Z_def)
  also have "\<dots> = map (\<lambda>(c, m). Fin (c / m - 1)) Z"
  proof (rule map_cong[OF refl])
    fix p assume p: "p \<in> set Z"
    obtain c m where cm: "p = (c, m)" by (cases p)
    with p have "m \<noteq> 0" using nz by blast
    then show "(case p of (c, m) \<Rightarrow> np_sub (np_div (Fin c) (Fin m)) (Fin 1))
        = (case p of (c, m) \<Rightarrow> Fin (c / m - 1))"
      by (simp add: cm np_sub_def)
  qed
  also have "\<dots> = map Fin (spec_drawdown_curve returns)"
    by (simp add: s case_prod_beta comp_def)
  finally show "drawdown_curve returns = map Fin (spec_drawdown_curve returns)" .
qed

lemma length_spec_drawdown_curve: "length (spec_drawdown_curve returns) = length returns"
  by (simp add: spec_drawdown_curve_def Let_def cumprod_def length_cumprod_from length_cummax)

lemma np_minimum_Fin: "np_minimum (Fin a) (Fin b) = Fin (min a b)"
  by (simp add: np_minimum_def min_def)

lemma foldl_np_minimum_Fin: "foldl np_minimum (Fin a) (map Fin xs) = Fin (fold min xs a)"
  by (induction xs arbitrary: a) (simp_all add: np_minimum_Fin min.commute)

lemma foldl_np_add_Fin: "foldl np_add (Fin a) (map Fin xs) = Fin (a + sum_list xs)"
  by (induction xs arbitrary: a) (simp_all add: add.assoc)

lemma fold_min_Min: "fold min xs a = Min (set (a # xs))"
  by (simp only: Min.set_eq_fold)

lemma np_min_f_Fin: "xs \<noteq> [] \<Longrightarrow> np_min_f (map Fin xs) = Inr (Fin (Min (set xs)))"
  by (cases xs) (simp_all add: foldl_np_minimum_Fin fold_min_Min)

lemma pd_min_Fin: "xs \<noteq> [] \<Longrightarrow> pd_min (map Fin xs) = Fin (Min (set xs))"
proof -
  assume ne: "xs \<noteq> []"
  show ?thesis using ne
    by (cases xs) (simp_all add: pd_min_def foldl_np_minimum_Fin fold_min_Min)
qed

lemma np_mean_f_Fin: "xs \<noteq> [] \<Longrightarrow> np_mean_f (map Fin xs) = Fin (sum_list xs / real (length xs))"
  by (simp add: np_mean_f_def foldl_np_add_Fin)

lemma drawdowns_eq_drawdown_curve: "drawdowns returns = drawdown_curve returns"
proof -
  have "np_div (Fin (c - m)) (Fin m) = np_sub (np_div (Fin c) (Fin m)) (Fin 1)" for c m :: real
    by (simp add: np_sub_def diff_divide_distrib)
  then show ?thesis
    by (simp add: drawdowns_def drawdown_curve_def Let_def)
qed

text \<open>
  C9, as the code has it. The drawdown array of \<open>analyze_drawdowns\<close>, written
  \<open>(cumulative - running max) / running max\<close>, is the curve cumulative over running
  maximum, minus one, of \<open>calculate_metrics\<close>, for every series; an empty series raises
  \<open>ValueError\<close>. For a non-empty series of returns above -1 the cumulative curve stays
  positive and the array is finite: \<open>max_drawdown\<close> is its minimum, here and in
  \<open>calculate_metrics\<close>, and \<open>avg_drawdown\<close> is the mean of the whole curve, the periods
  without drawdown included.
\<close>

theorem analyze_drawdowns_curve_min_mean:
  "drawdowns returns = drawdown_curve returns
   \<and> analyze_drawdowns calculate_drawdown_duration [] = Inl ValueError
   \<and> (returns \<noteq> [] \<and> (\<forall>r\<in>set returns. - 1 < r) \<longrightarrow>
        drawdowns returns = map Fin (spec_drawdown_curve returns)
      \<and> get_metric (analyze_drawdowns calculate_drawdown_duration returns) ''max_drawdown''
          = Some (Fin (Min (set (spec_drawdown_curve returns))))
      \<and> get_metric (analyze_drawdowns calculate_drawdown_duration returns) ''avg_drawdown''
          = Some (Fin (sum_list (spec_drawdown_curve returns)
                        / real (length (spec_drawdown_curve returns))))
      \<and> calculate_metrics returns positions ''max_drawdown''
          = Some (Num (Fin (Min (set (spec_drawdown_curve returns))))))"
proof (intro conjI impI)
  show "drawdowns returns = drawdown_curve returns"
    by (rule drawdowns_eq_drawdown_curve)
  show "analyze_drawdowns calculate_drawdown_duration [] = Inl ValueError"
    by (simp add: analyze_drawdowns_def drawdowns_def cumprod_def)
next
  assume h: "returns \<noteq> [] \<and> (\<forall>r\<in>set returns. - 1 < r)"
  then have ne0: "returns \<noteq> []" and gt: "\<forall>r\<in>set returns. - 1 < r" by simp_all
  have ne: "spec_drawdown_curve returns \<noteq> []"
    using ne0 length_spec_drawdown_curve[of returns] by (metis length_0_conv)
  note d = drawdowns_finite[OF gt]
  have a: "analyze_drawdowns calculate_drawdown_duration returns =
      Inr [''max_drawdown'' \<mapsto> Fin (Min (set (spec_drawdown_curve returns))),
           ''avg_drawdown'' \<mapsto> Fin (sum_list (spec_drawdown_curve returns)
                      / real (length (spec_drawdown_curve returns))),
           ''drawdown_duration'' \<mapsto>
              calculate_drawdown_duration (map Fin (spec_drawdown_curve returns))]"
    by (simp add: analyze_drawdowns_def d np_min_f_Fin[OF ne] np_mean_f_Fin[OF ne])
  show "drawdowns returns = map Fin (spec_drawdown_curve returns)" by (rule d(1))
  show "get_metric (analyze_drawdowns calculate_drawdown_duration returns) ''max_drawdown''
          = Some (Fin (Min (set (spec_drawdown_curve returns))))"
    by (simp add: a get_metric_def)
  show "get_metric (analyze_drawdowns calculate_drawdown_duration returns) ''avg_drawdown''
          = Some (Fin (sum_list (spec_drawdown_curve returns)
                        / real (length (spec_drawdown_curve returns))))"
    by (simp add: a get_metric_def)
  show "calculate_metrics returns positions ''max_drawdown''
        = Some (Num (Fin (Min (set (spec_drawdown_curve returns)))))"
    by (simp add: calculate_metrics_def d pd_min_Fin[OF ne])
qed

theorem analyze_drawdowns_curve_min_mean_witness:
  "get_metric (analyze_drawdowns constant_duration [1 / 10, - (1 / 2)]) ''max_drawdown''
      = Some (Fin (- (1 / 2)))
   \<and> get_metric (analyze_drawdowns constant_duration [1 / 10, - (1 / 2)]) ''avg_drawdown''
      = Some (Fin (- (1 / 4)))
   \<and> calculate_metrics [1 / 10, - (1 / 2)] Map.empty ''max_drawdown''
      = Some (Num (Fin (- (1 / 2))))"
proof -
  have s: "spec_drawdown_curve [1 / 10, - (1 / 2)] = [0, - (1 / 2)]"
    by (simp add: spec_drawdown_curve_def cumprod_def)
  show ?thesis
    using analyze_drawdowns_curve_min_mean[of "[1 / 10, - (1 / 2)]" constant_duration Map.empty]
    by (simp add: s)
qed

text \<open>
  C9 as stated fails on the average: for the returns 0.1, -0.5 the curve is 0, -1/2; the
  code reports \<open>avg_drawdown = -1/4\<close>, the mean over both periods, where the mean of the
  negative excursions alone is -1/2.
\<close>

theorem avg_drawdown_counts_all_periods:
  "get_metric (analyze_drawdowns constant_duration [0.1, - 0.5]) ''avg_drawdown'' = Some (Fin (- 0.25))
   \<and> spec_avg_drawdown (drawdowns [0.1, - 0.5]) = Fin (- 0.5)"
  by (simp add: get_metric_def analyze_drawdowns_def drawdowns_def cumprod_def np_mean_f_def spec_avg_drawdown_def np_minimum_def)

section \<open>Properties of the volatility regime\<close>

text \<open>
  C7, as the code has it. The tier compares the population deviation of the last \<open>window\<close>
  returns with one scalar, \<open>historical_vol\<close>: above one and a half times it the tier is
  \<open>high_volatility\<close>, below half of it \<open>low_volatility\<close>, otherwise \<open>medium_volatility\<close>; an
  empty window gives \<open>medium_volatility\<close>. No percentile and no reference distribution
  takes part.
\<close>

theorem analyze_volatility_thresholds:
  "(py_tail returns window = [] \<longrightarrow>
      analyze_volatility historical_vol returns window = ''medium_volatility'')
   \<and> (\<forall>sigma. np_std (py_tail returns window) = Fin sigma \<longrightarrow>
        (analyze_volatility historical_vol returns window = ''high_volatility''
           \<longleftrightarrow> historical_vol * 1.5 < sigma)
      \<and> (analyze_volatility historical_vol returns window = ''low_volatility''
           \<longleftrightarrow> sigma < historical_vol * 0.5)
      \<and> (analyze_volatility historical_vol returns window = ''medium_volatility''
           \<longleftrightarrow> historical_vol * 0.5 \<le> sigma \<and> sigma \<le> historical_vol * 1.5))"
proof (intro conjI impI allI)
  assume "py_tail returns window = []"
  then show "analyze_volatility historical_vol returns window = ''medium_volatility''"
    by (simp add: analyze_volatility_def np_std_def)
next
  fix sigma assume s: "np_std (py_tail returns window) = Fin sigma"
  have nn: "0 \<le> sigma" using np_std_nonneg[OF s] .
  show "(analyze_volatility historical_vol returns window = ''high_volatility'')
           = (historical_vol * 1.5 < sigma)"
    by (simp add: analyze_volatility_def s)
  show "(analyze_volatility historical_vol returns window = ''low_volatility'')
           = (sigma < historical_vol * 0.5)"
    using nn by (auto simp add: analyze_volatility_def s)
  show "(analyze_volatility historical_vol returns window = ''medium_volatility'')
           = (historical_vol * 0.5 \<le> sigma \<and> sigma \<le> historical_vol * 1.5)"
    using nn by (auto simp add: analyze_volatility_def s)
qed

theorem analyze_volatility_thresholds_witness:
  "np_std (py_tail [1 / 40, - (1 / 40)] 2) = Fin (1 / 40)
   \<and> analyze_volatility (1 / 50) [1 / 40, - (1 / 40)] 2 = ''medium_volatility''"
proof -
  have v: "np_std (py_tail [1 / 40, - (1 / 40)] 2) = Fin (1 / 40)"
    by (simp add: py_tail_def np_std_def power2_eq_square sqrt_1_1600)
  have "(analyze_volatility (1 / 50) [1 / 40, - (1 / 40)] 2 = ''medium_volatility'')
      = ((1 / 50) * 0.5 \<le> (1 / 40 :: real) \<and> (1 / 40 :: real) \<le> (1 / 50) * 1.5)"
    using analyze_volatility_thresholds[of "[1 / 40, - (1 / 40)]" 2 "1 / 50"] v by blast
  then show ?thesis using v by simp
qed

text \<open>
  C7 as stated fails: with \<open>historical_vol = 0.02\<close>, the centre of the reference
  volatilities 0.01, 0.02, 0.03, a trailing deviation of 0.025 is \<open>medium_volatility\<close> for
  the code and lies above the 66th percentile 0.0232 of the reference.
\<close>

theorem analyze_volatility_not_percentile_tier:
  "analyze_volatility 0.02 [0.025, - 0.025] 2 = ''medium_volatility''
   \<and> spec_volatility_tier [0.01, 0.02, 0.03] [0.025, - 0.025] 2 = Inr ''high_volatility''"
proof -
  have t: "py_tail [1 / 40, - (1 / 40)] 2 = [1 / 40, - (1 / 40)]"
    by (simp add: py_tail_def)
  have v: "np_std [1 / 40, - (1 / 40) :: real] = Fin (1 / 40)"
    by (simp add: np_std_def power2_eq_square sqrt_1_1600)
  show ?thesis
    by (simp add: analyze_volatility_def spec_volatility_tier_def t v np_percentile_def Let_def)
qed

section \<open>Properties of the signal generators\<close>

text \<open>
  C10, as the code has it. For a non-negative \<open>zscore_threshold\<close>, every signal that
  \<open>generate_pairs_signal\<close> or \<open>generate_mean_reversion_signal\<close> returns has confidence
  exactly 1.0: a signal needs \<open>|zscore| > zscore_threshold\<close>, so the quotient exceeds 1 (or
  is infinite) and the cap binds. For a negative threshold every z-score passes, the
  quotient is at most 0 and no returned signal has confidence 1.0.
\<close>

theorem signal_confidence_is_one:
  "(0 \<le> zscore_threshold \<and> generate_pairs_signal pair zscore_threshold = Inr (Some signal)
      \<longrightarrow> confidence signal = Fin 1)
   \<and> (0 \<le> zscore_threshold
        \<and> generate_mean_reversion_signal prices lookback zscore_threshold = Inr (Some signal')
      \<longrightarrow> confidence signal' = Fin 1)
   \<and> (zscore_threshold < 0 \<and> generate_pairs_signal pair zscore_threshold = Inr (Some signal)
      \<longrightarrow> confidence signal \<noteq> Fin 1)
   \<and> (zscore_threshold < 0
        \<and> generate_mean_reversion_signal prices lookback zscore_threshold = Inr (Some signal')
      \<longrightarrow> confidence signal' \<noteq> Fin 1)"
proof (intro conjI impI)
  assume h: "0 \<le> zscore_threshold \<and> generate_pairs_signal pair zscore_threshold = Inr (Some signal)"
  then have gt: "zscore_threshold < \<bar>zscore pair\<bar>" and nz: "zscore_threshold \<noteq> 0"
    by (auto simp: generate_pairs_signal_def py_div_def split: if_splits)
  then have "1 < \<bar>zscore pair\<bar> / zscore_threshold" using h by simp
  then have "min (\<bar>zscore pair\<bar> / zscore_threshold) 1 = 1" by simp
  then show "confidence signal = Fin 1"
    using h gt nz by (auto simp: generate_pairs_signal_def py_div_def)
next
  assume h: "0 \<le> zscore_threshold
     \<and> generate_mean_reversion_signal prices lookback zscore_threshold = Inr (Some signal')"
  define z where "z = last (rolling_zscore (vals prices) (nat lookback))"
  from h have lt: "np_less (Fin zscore_threshold) (np_abs z)"
    and c: "confidence signal' = py_min (np_div (np_abs z) (Fin zscore_threshold)) (Fin 1)"
    by (auto simp: generate_mean_reversion_signal_def Let_def z_def split: if_splits)
  have "py_min (np_div (np_abs z) (Fin zscore_threshold)) (Fin 1) = Fin 1"
  proof (cases z)
    case (Fin x)
    then have g: "zscore_threshold < \<bar>x\<bar>" using lt by simp
    show ?thesis
    proof (cases "zscore_threshold = 0")
      case True
      then show ?thesis using g Fin by (simp add: py_min_def)
    next
      case False
      then have "1 < \<bar>x\<bar> / zscore_threshold" using g h by simp
      then show ?thesis using Fin False by (simp add: py_min_def)
    qed
  next
    case PInf
    then show ?thesis using h by (simp add: py_min_def)
  next
    case NInf
    then show ?thesis using h by (simp add: py_min_def)
  next
    case NaN
    then show ?thesis using lt by simp
  qed
  then show "confidence signal' = Fin 1" using c by simp
next
  assume h: "zscore_threshold < 0 \<and> generate_pairs_signal pair zscore_threshold = Inr (Some signal)"
  then have nz: "zscore_threshold \<noteq> 0" by simp
  define q where "q = \<bar>zscore pair\<bar> / zscore_threshold"
  have q: "q \<le> 0" unfolding q_def using h by (simp add: divide_nonneg_neg)
  from h nz have "confidence signal = Fin (min q 1)"
    unfolding q_def by (auto simp: generate_pairs_signal_def py_div_def split: if_splits)
  moreover have "min q 1 = q" using q by simp
  ultimately have "confidence signal = Fin q" by (simp only:)
  then show "confidence signal \<noteq> Fin 1" using q by simp
next
  assume h: "zscore_threshold < 0
     \<and> generate_mean_reversion_signal prices lookback zscore_threshold = Inr (Some signal')"
  define z where "z = last (rolling_zscore (vals prices) (nat lookback))"
  from h have lt: "np_less (Fin zscore_threshold) (np_abs z)"
    and c: "confidence signal' = py_min (np_div (np_abs z) (Fin zscore_threshold)) (Fin 1)"
    by (auto simp: generate_mean_reversion_signal_def Let_def z_def split: if_splits)
  have "py_min (np_div (np_abs z) (Fin zscore_threshold)) (Fin 1) \<noteq> Fin 1"
  proof (cases z)
    case (Fin x)
    have "\<bar>x\<bar> / zscore_threshold \<le> 0" using h by (simp add: divide_nonneg_neg)
    then have "\<not> 1 < \<bar>x\<bar> / zscore_threshold" "\<bar>x\<bar> / zscore_threshold \<noteq> 1"
      by linarith+
    moreover have "np_div (np_abs z) (Fin zscore_threshold) = Fin (\<bar>x\<bar> / zscore_threshold)"
      using Fin h by simp
    ultimately show ?thesis by (simp only: py_min_def np_less.simps if_False npfloat.inject) simp
  next
    case PInf
    then show ?thesis using h by (simp add: py_min_def)
  next
    case NInf
    then show ?thesis using h by (simp add: py_min_def)
  next
    case NaN
    then show ?thesis using lt by simp
  qed
  then show "confidence signal' \<noteq> Fin 1" using c by simp
qed

lemma mean_reversion_example:
  "generate_mean_reversion_signal \<lparr>name = ''BTC'', vals = [0, 3, 6]\<rparr> 3 (1 / 2)
     = Inr (Some \<lparr>type = MEAN_REVERSION, assets = [''BTC''], direction = [Fin (- 1)],
                 confidence = Fin 1\<rparr>)"
proof -
  have s9: "sqrt 9 = 3" by (rule real_sqrt_unique) simp_all
  have u: "[0..<3] = [0, 1, 2]" by (simp add: upt_rec)
  have z: "rolling_zscore [0, 3, 6] 3 = [NaN, NaN, Fin 1]"
    by (simp add: rolling_zscore_def rolling_def u pd_mean_def pd_std_def np_sub_def
        power2_eq_square s9)
  show ?thesis
    by (simp add: generate_mean_reversion_signal_def z py_min_def)
qed

theorem signal_confidence_is_one_witness:
  "generate_pairs_signal \<lparr>asset_a = ''BTC'', asset_b = ''ETH'', correlation = 0.9,
       hedge_ratio = 1.5, half_life = 10, zscore = 3\<rparr> 2
     = Inr (Some \<lparr>type = PAIRS_TRADING, assets = [''BTC'', ''ETH''],
                 direction = [Fin (- 1), Fin 1.5], confidence = Fin 1\<rparr>)
   \<and> confidence \<lparr>type = PAIRS_TRADING, assets = [''BTC'', ''ETH''],
                 direction = [Fin (- 1), Fin 1.5], confidence = Fin 1\<rparr> = Fin 1
   \<and> generate_mean_reversion_signal \<lparr>name = ''BTC'', vals = [0, 3, 6]\<rparr> 3 (1 / 2)
     = Inr (Some \<lparr>type = MEAN_REVERSION, assets = [''BTC''], direction = [Fin (- 1)],
                 confidence = Fin 1\<rparr>)
   \<and> confidence \<lparr>type = MEAN_REVERSION, assets = [''BTC''], direction = [Fin (- 1)],
                 confidence = Fin 1\<rparr> = Fin 1
   \<and> generate_pairs_signal \<lparr>asset_a = ''BTC'', asset_b = ''ETH'', correlation = 0.9,
       hedge_ratio = 1.5, half_life = 10, zscore = 2\<rparr> (- 4)
     = Inr (Some \<lparr>type = PAIRS_TRADING, assets = [''BTC'', ''ETH''],
                 direction = [Fin (- 1), Fin 1.5], confidence = Fin (- (1 / 2))\<rparr>)
   \<and> confidence \<lparr>type = PAIRS_TRADING, assets = [''BTC'', ''ETH''],
                 direction = [Fin (- 1), Fin 1.5], confidence = Fin (- (1 / 2))\<rparr> \<noteq> Fin 1"
  using signal_confidence_is_one
      [of 2 "\<lparr>asset_a = ''BTC'', asset_b = ''ETH'', correlation = 0.9, hedge_ratio = 1.5,
               half_life = 10, zscore = 3\<rparr>"
          "\<lparr>type = PAIRS_TRADING, assets = [''BTC'', ''ETH''],
            direction = [Fin (- 1), Fin 1.5], confidence = Fin 1\<rparr>"]
    signal_confidence_is_one
      [of "1 / 2" _ _ "\<lparr>name = ''BTC'', vals = [0, 3, 6]\<rparr>" 3
          "\<lparr>type = MEAN_REVERSION, assets = [''BTC''], direction = [Fin (- 1)],
            confidence = Fin 1\<rparr>"]
    signal_confidence_is_one
      [of "- 4" "\<lparr>asset_a = ''BTC'', asset_b = ''ETH'', correlation = 0.9, hedge_ratio = 1.5,
               half_life = 10, zscore = 2\<rparr>"
          "\<lparr>type = PAIRS_TRADING, assets = [''BTC'', ''ETH''],
            direction = [Fin (- 1), Fin 1.5], confidence = Fin (- (1 / 2))\<rparr>"]
    mean_reversion_example
  by (simp add: generate_pairs_signal_def py_div_def)

text \<open>
  C10 as stated fails for a negative threshold: at \<open>zscore_threshold = -2\<close> a pair with
  z-score 1 gives a signal with confidence \<open>-1/2\<close>, and at \<open>-1/2\<close> the prices 0, 3, 6 with
  a lookback of 3 (z-score 1) give a mean-reversion signal with confidence \<open>-2\<close>.
\<close>

theorem signal_confidence_negative_threshold:
  "generate_pairs_signal \<lparr>asset_a = ''BTC'', asset_b = ''ETH'', correlation = 0.9, hedge_ratio = 1,
       half_life = 10, zscore = 1\<rparr> (- 2)
     = Inr (Some \<lparr>type = PAIRS_TRADING, assets = [''BTC'', ''ETH''],
                 direction = [Fin (- 1), Fin 1], confidence = Fin (- 1 / 2)\<rparr>)
   \<and> generate_mean_reversion_signal \<lparr>name = ''BTC'', vals = [0, 3, 6]\<rparr> 3 (- (1 / 2))
     = Inr (Some \<lparr>type = MEAN_REVERSION, assets = [''BTC''], direction = [Fin (- 1)],
                 confidence = Fin (- 2)\<rparr>)"
proof -
  have s9: "sqrt 9 = 3" by (rule real_sqrt_unique) simp_all
  have u: "[0..<3] = [0, 1, 2]" by (simp add: upt_rec)
  have z: "rolling_zscore [0, 3, 6] 3 = [NaN, NaN, Fin 1]"
    by (simp add: rolling_zscore_def rolling_def u pd_mean_def pd_std_def np_sub_def
        power2_eq_square s9)
  show ?thesis
    by (simp add: generate_pairs_signal_def py_div_def generate_mean_reversion_signal_def z
        py_min_def)
qed

end
